theory Spec2Isabelle
  imports Complex_Main
begin

section \<open>The screen players of asciimatics (renderers/players.py)\<close>

text \<open>
  The theory embeds \<^verbatim>\<open>AbstractScreenPlayer\<close>, \<^verbatim>\<open>AnsiArtPlayer\<close> and
  \<^verbatim>\<open>AsciinemaPlayer\<close>. Python's unbounded integers are \<open>int\<close>, its strings are
  \<open>string\<close> (one \<open>char\<close> per code point), and its floats are idealised as \<open>real\<close>:
  the players only add, subtract and compare them, and nothing proved below depends on
  rounding. A raised exception is a value \<open>Inl e\<close> of a sum type.
\<close>

subsection \<open>Python's string operations\<close>

text \<open>
  The position a slice bound \<open>k\<close> denotes in a sequence of length \<open>n\<close>: a negative bound
  counts from the end, and every bound is clipped to \<open>0..n\<close>.
\<close>

definition py_index :: "int \<Rightarrow> nat \<Rightarrow> nat" where
  "py_index k n = (if k < 0 then nat (max 0 (int n + k)) else nat (min k (int n)))"

text \<open>\<^verbatim>\<open>s[:k]\<close> and \<^verbatim>\<open>s[k:]\<close>.\<close>

definition slice_to :: "string \<Rightarrow> int \<Rightarrow> string" where
  "slice_to s k = take (py_index k (length s)) s"

definition slice_from :: "string \<Rightarrow> int \<Rightarrow> string" where
  "slice_from s k = drop (py_index k (length s)) s"

text \<open>\<^verbatim>\<open>" " * n\<close>: empty when \<open>n\<close> is not positive.\<close>

definition spaces :: "int \<Rightarrow> string" where
  "spaces n = replicate (nat n) (CHR '' '')"

definition LF :: char where
  "LF = CHR 0x0A"

definition CR :: char where
  "CR = CHR 0x0D"

text \<open>\<^verbatim>\<open>text.split("\n")\<close>: always at least one piece.\<close>

fun split_nl :: "string \<Rightarrow> string list" where
  "split_nl [] = [[]]"
| "split_nl (c # cs) =
     (if c = LF then [] # split_nl cs
      else (case split_nl cs of [] \<Rightarrow> [[c]] | l # ls \<Rightarrow> (c # l) # ls))"


subsection \<open>The canvas\<close>

type_synonym colours = "int \<times> int \<times> int"

type_synonym cell = "char \<times> int \<times> int \<times> int"

text \<open>
  Modelled from the spec: the canvas (asciimatics.screen) is not part of the sources at
  hand. The spec gives its contract: \<^verbatim>\<open>print_at(text, x, y, colour, attr, bg)\<close>,
  \<^verbatim>\<open>get_from(x, y)\<close>, \<^verbatim>\<open>clear_buffer(colour, attr, bg)\<close>, \<^verbatim>\<open>scroll(n=1)\<close> and the
  properties \<^verbatim>\<open>width\<close>, \<^verbatim>\<open>height\<close>, \<^verbatim>\<open>start_line\<close> (the logical row at the top of the
  visible window after scrolling). The canvas is kept as its dimensions, its start line
  and the list of mutating calls the player has made on it, oldest first; what a cell
  holds after those calls is the canvas's own business and is read through a
  \<open>get_from\<close> function handed to the player.
\<close>

datatype canvas_call =
    PrintAt string int int int int int
  | ClearBuffer int int int
  | Scroll int

record canvas =
  width :: int
  height :: int
  start_line :: int
  calls :: "canvas_call list"

definition print_at :: "string \<Rightarrow> int \<Rightarrow> int \<Rightarrow> int \<Rightarrow> int \<Rightarrow> int \<Rightarrow> canvas \<Rightarrow> canvas" where
  "print_at text x y colour attr bg cv = cv\<lparr>calls := calls cv @ [PrintAt text x y colour attr bg]\<rparr>"

definition clear_buffer :: "int \<Rightarrow> int \<Rightarrow> int \<Rightarrow> canvas \<Rightarrow> canvas" where
  "clear_buffer colour attr bg cv = cv\<lparr>calls := calls cv @ [ClearBuffer colour attr bg]\<rparr>"

definition scroll :: "int \<Rightarrow> canvas \<Rightarrow> canvas" where
  "scroll n cv = cv\<lparr>start_line := start_line cv + n, calls := calls cv @ [Scroll n]\<rparr>"

definition new_canvas :: "int \<Rightarrow> int \<Rightarrow> canvas" where
  "new_canvas h w = \<lparr>width = w, height = h, start_line = 0, calls = []\<rparr>"

definition canvas_reset :: "canvas \<Rightarrow> canvas" where
  "canvas_reset cv = cv\<lparr>start_line := 0, calls := []\<rparr>"

subsection \<open>Commands and the collaborators of the player\<close>

text \<open>
  The typed commands \<^verbatim>\<open>Parser.parse()\<close> yields, with their parameters. \<open>OTHER\<close> stands
  for any tag the dispatch chain of \<^verbatim>\<open>_play_content\<close> does not test for.
\<close>

datatype command =
    DISPLAY_TEXT string
  | CHANGE_COLOURS colours
  | NEXT_TAB
  | MOVE_RELATIVE int int
  | MOVE_ABSOLUTE "int option" "int option"
  | DELETE_LINE int
  | DELETE_CHARS int
  | SHOW_CURSOR bool
  | SAVE_CURSOR
  | RESTORE_CURSOR
  | CLEAR_SCREEN
  | OTHER

text \<open>
  The tokenizer (asciimatics.parsers) and the cell store of the canvas are outside the
  sources at hand, so they are parameters of the model: \<open>parser_reset colours\<close> is the
  state of a fresh \<^verbatim>\<open>AnsiTerminalParser\<close> after \<^verbatim>\<open>reset("", colours)\<close>,
  \<open>parser_feed ps line\<close> is \<^verbatim>\<open>append(line)\<close> followed by draining \<^verbatim>\<open>parse()\<close> (the
  commands yielded and the parser's next state), and \<open>get_from cv x y\<close> is the cell the
  canvas reports at a position, if any.
\<close>

record 'p collaborators =
  parser_reset :: "colours \<Rightarrow> 'p"
  parser_feed :: "'p \<Rightarrow> string \<Rightarrow> command list \<times> 'p"
  get_from :: "canvas \<Rightarrow> int \<Rightarrow> int \<Rightarrow> cell option"

subsection \<open>JSON values and errors\<close>

datatype jvalue =
    JNull
  | JBool bool
  | JInt int
  | JFloat real
  | JStr string
  | JArr "jvalue list"
  | JObj "(string \<times> jvalue) list"

datatype error =
    ValueError
  | TypeError
  | KeyError
  | AttributeError
  | RuntimeError
  | UnicodeDecodeError

subsection \<open>AbstractScreenPlayer\<close>

text \<open>
  The fields of the class, without the leading underscore (\<open>next_t\<close> is \<^verbatim>\<open>_next\<close>). The
  byte source \<^verbatim>\<open>_file\<close> is \<open>file_lines\<close>, the list of its lines, as \<^verbatim>\<open>readline()\<close> returns them, and the
  read position; \<open>'l\<close> is what a line is for the concrete player. \<^verbatim>\<open>_buffer\<close> holds
  whatever the last event record carried as payload, \<open>JNull\<close> being \<^verbatim>\<open>None\<close>.
\<close>

record ('p, 'l) screen_player =
  file_lines :: "'l list"
  file_pos :: nat
  parser :: 'p
  current_colours :: colours
  show_cursor :: bool
  cursor_x :: int
  cursor_y :: int
  save_cursor_x :: int
  save_cursor_y :: int
  counter :: real
  next_t :: real
  buffer :: jvalue
  canvas :: canvas

text \<open>\<^verbatim>\<open>Screen.COLOUR_WHITE\<close>, \<^verbatim>\<open>Screen.A_NORMAL\<close>, \<^verbatim>\<open>Screen.COLOUR_BLACK\<close>.\<close>

definition initial_colours :: colours where
  "initial_colours = (7, 2, 0)"

definition reset :: "'p collaborators \<Rightarrow> ('p, 'l, 'm) screen_player_scheme \<Rightarrow> ('p, 'l, 'm) screen_player_scheme" where
  "reset E p = p\<lparr>
     parser := parser_reset E initial_colours,
     current_colours := initial_colours,
     show_cursor := False,
     cursor_x := 0,
     cursor_y := 0,
     save_cursor_x := 0,
     save_cursor_y := 0,
     counter := 0,
     next_t := 0,
     buffer := JNull,
     file_pos := 0,
     canvas := canvas_reset (canvas p)\<rparr>"

text \<open>\<^verbatim>\<open>_print_at\<close>: a write with the current colour triple.\<close>

definition player_print_at ::
  "string \<Rightarrow> int \<Rightarrow> int \<Rightarrow> ('p, 'l, 'm) screen_player_scheme \<Rightarrow> ('p, 'l, 'm) screen_player_scheme" where
  "player_print_at text x y p =
     (case current_colours p of (c0, c1, c2) \<Rightarrow>
        p\<lparr>canvas := print_at text x y c0 c1 c2 (canvas p)\<rparr>)"

text \<open>
  The scroll test shared by the wrap of \<^verbatim>\<open>DISPLAY_TEXT\<close> and the end of a line:
  \<^verbatim>\<open>if self._cursor_y - self._canvas.start_line >= self._canvas.height: self._canvas.scroll()\<close>.
\<close>

definition scroll_if_below ::
  "('p, 'l, 'm) screen_player_scheme \<Rightarrow> ('p, 'l, 'm) screen_player_scheme" where
  "scroll_if_below p =
     (if cursor_y p - start_line (canvas p) \<ge> height (canvas p)
      then p\<lparr>canvas := scroll 1 (canvas p)\<rparr> else p)"

text \<open>One pass of the loop body of \<^verbatim>\<open>DELETE_CHARS\<close>, at column \<open>x\<close>.\<close>

definition delete_chars_at ::
  "'p collaborators \<Rightarrow> int \<Rightarrow> ('p, 'l, 'm) screen_player_scheme \<Rightarrow> int \<Rightarrow> ('p, 'l, 'm) screen_player_scheme" where
  "delete_chars_at E params p x =
     (let cell = (if x + params < width (canvas p)
                  then get_from E (canvas p) (x + params) (cursor_y p) else None);
          cell' = (case cell of
                     None \<Rightarrow> (case current_colours p of (c0, c1, c2) \<Rightarrow> (CHR '' '', c0, c1, c2))
                   | Some c \<Rightarrow> c)
      in case cell' of (ch, colour, attr, bg) \<Rightarrow>
           p\<lparr>canvas := print_at [ch] x (cursor_y p) colour attr bg (canvas p)\<rparr>)"

text \<open>The dispatch chain of \<^verbatim>\<open>_play_content\<close>, for one command.\<close>

fun play_command ::
  "'p collaborators \<Rightarrow> ('p, 'l, 'm) screen_player_scheme \<Rightarrow> command \<Rightarrow> ('p, 'l, 'm) screen_player_scheme" where
  "play_command E p (DISPLAY_TEXT params) =
     (if cursor_x p + int (length params) \<ge> width (canvas p) then
        (let part_1 = slice_to params (width (canvas p) - cursor_x p);
             part_2 = slice_from params (width (canvas p) - cursor_x p);
             p1 = player_print_at part_1 (cursor_x p) (cursor_y p) p;
             p2 = player_print_at part_2 0 (cursor_y p1 + 1) p1;
             p3 = p2\<lparr>cursor_x := int (length part_2)\<rparr>;
             p4 = p3\<lparr>cursor_y := cursor_y p3 + 1\<rparr>
         in scroll_if_below p4)
      else
        (let p1 = player_print_at params (cursor_x p) (cursor_y p) p
         in p1\<lparr>cursor_x := cursor_x p1 + int (length params)\<rparr>))"
| "play_command E p (CHANGE_COLOURS params) = p\<lparr>current_colours := params\<rparr>"
| "play_command E p NEXT_TAB = p\<lparr>cursor_x := (cursor_x p div 8) * 8 + 8\<rparr>"
| "play_command E p (MOVE_RELATIVE dx dy) =
     (let p1 = p\<lparr>cursor_x := cursor_x p + dx\<rparr>;
          p2 = p1\<lparr>cursor_y := cursor_y p1 + dy\<rparr>
      in if cursor_y p2 < start_line (canvas p2)
         then p2\<lparr>canvas := scroll (cursor_y p2 - start_line (canvas p2)) (canvas p2)\<rparr>
         else p2)"
| "play_command E p (MOVE_ABSOLUTE x y) =
     (let p1 = (case x of None \<Rightarrow> p | Some x' \<Rightarrow> p\<lparr>cursor_x := x'\<rparr>)
      in case y of None \<Rightarrow> p1 | Some y' \<Rightarrow> p1\<lparr>cursor_y := y' + start_line (canvas p1)\<rparr>)"
| "play_command E p (DELETE_LINE params) =
     (if params = 0 then
        player_print_at (spaces (width (canvas p) - cursor_x p)) (cursor_x p) (cursor_y p) p
      else if params = 1 then
        player_print_at (spaces (cursor_x p)) 0 (cursor_y p) p
      else if params = 2 then
        player_print_at (spaces (width (canvas p))) 0 (cursor_y p) p
      else p)"
| "play_command E p (DELETE_CHARS params) =
     foldl (delete_chars_at E params) p [cursor_x p .. width (canvas p) - 1]"
| "play_command E p (SHOW_CURSOR params) = p\<lparr>show_cursor := params\<rparr>"
| "play_command E p SAVE_CURSOR =
     p\<lparr>save_cursor_x := cursor_x p, save_cursor_y := cursor_y p\<rparr>"
| "play_command E p RESTORE_CURSOR =
     p\<lparr>cursor_x := save_cursor_x p, cursor_y := save_cursor_y p\<rparr>"
| "play_command E p CLEAR_SCREEN =
     (case current_colours p of (c0, c1, c2) \<Rightarrow>
        (let p1 = p\<lparr>canvas := clear_buffer c0 c1 c2 (canvas p)\<rparr>;
             p2 = p1\<lparr>cursor_x := 0\<rparr>
         in p2\<lparr>cursor_y := start_line (canvas p2)\<rparr>))"
| "play_command E p OTHER = p"

text \<open>The inner \<^verbatim>\<open>for\<close> loop: every command the parser yields for a line, in order.\<close>

definition play_commands ::
  "'p collaborators \<Rightarrow> ('p, 'l, 'm) screen_player_scheme \<Rightarrow> command list \<Rightarrow> ('p, 'l, 'm) screen_player_scheme" where
  "play_commands E p cs = foldl (play_command E) p cs"

text \<open>
  One pass of the outer loop: the line goes to the parser, its commands are played, and
  unless the line is the last piece of the text the cursor moves to the start of the
  next row, scrolling as needed.
\<close>

definition play_line ::
  "'p collaborators \<Rightarrow> bool \<Rightarrow> ('p, 'l, 'm) screen_player_scheme \<Rightarrow> string \<Rightarrow> ('p, 'l, 'm) screen_player_scheme" where
  "play_line E is_last p line =
     (case parser_feed E (parser p) line of (cmds, ps) \<Rightarrow>
        (let p1 = play_commands E (p\<lparr>parser := ps\<rparr>) cmds
         in if \<not> is_last then
              (let p2 = p1\<lparr>cursor_x := 0\<rparr>;
                   p3 = p2\<lparr>cursor_y := cursor_y p2 + 1\<rparr>
               in scroll_if_below p3)
            else p1))"

fun play_lines ::
  "'p collaborators \<Rightarrow> ('p, 'l, 'm) screen_player_scheme \<Rightarrow> string list \<Rightarrow> ('p, 'l, 'm) screen_player_scheme" where
  "play_lines E p [] = p"
| "play_lines E p [line] = play_line E True p line"
| "play_lines E p (line # rest) = play_lines E (play_line E False p line) rest"

text \<open>\<^verbatim>\<open>_play_content(text)\<close>.\<close>

definition play_content ::
  "'p collaborators \<Rightarrow> ('p, 'l, 'm) screen_player_scheme \<Rightarrow> string \<Rightarrow> ('p, 'l, 'm) screen_player_scheme" where
  "play_content E p text = play_lines E p (split_nl text)"

subsection \<open>Reading the byte source\<close>

text \<open>
  \<^verbatim>\<open>self._file.readline()\<close>: the next line and the advanced position, or \<open>None\<close> (the
  empty bytes Python returns) at the end of the file, where the position stays.
\<close>

definition readline ::
  "('p, 'l, 'm) screen_player_scheme \<Rightarrow> 'l option \<times> ('p, 'l, 'm) screen_player_scheme" where
  "readline p =
     (if file_pos p < length (file_lines p)
      then (Some (file_lines p ! file_pos p), p\<lparr>file_pos := file_pos p + 1\<rparr>)
      else (None, p))"

subsection \<open>AnsiArtPlayer\<close>

text \<open>
  A line of an ANSI art file is its bytes, one \<open>char\<close> each. \<open>encoding\<close> is the codec
  \<^verbatim>\<open>self._encoding\<close> names, as the function \<^verbatim>\<open>bytes.decode\<close> applies: the decoded text, or
  \<open>Inl UnicodeDecodeError\<close>.
\<close>

record 'p ansi_art_player = "('p, string) screen_player" +
  strip :: bool
  rate :: int
  encoding :: "string \<Rightarrow> error + string"

subsection \<open>What playing content leaves alone\<close>

text \<open>
  \<^verbatim>\<open>_play_content\<close> assigns only to the parser, the colours, the cursor fields and the
  canvas. The loops of the two players terminate because it leaves the file and the
  fields of the subclasses alone.
\<close>

lemma delete_chars_at_frame [simp]:
  "screen_player.more (delete_chars_at E n p x) = screen_player.more p"
  "file_lines (delete_chars_at E n p x) = file_lines p"
  "file_pos (delete_chars_at E n p x) = file_pos p"
  "counter (delete_chars_at E n p x) = counter p"
  "next_t (delete_chars_at E n p x) = next_t p"
  "buffer (delete_chars_at E n p x) = buffer p"
  by (simp_all add: delete_chars_at_def Let_def split: option.splits prod.splits)

lemma foldl_delete_chars_frame [simp]:
  "screen_player.more (foldl (delete_chars_at E n) p xs) = screen_player.more p"
  "file_lines (foldl (delete_chars_at E n) p xs) = file_lines p"
  "file_pos (foldl (delete_chars_at E n) p xs) = file_pos p"
  "counter (foldl (delete_chars_at E n) p xs) = counter p"
  "next_t (foldl (delete_chars_at E n) p xs) = next_t p"
  "buffer (foldl (delete_chars_at E n) p xs) = buffer p"
  by (induction xs arbitrary: p) simp_all

lemma play_command_frame [simp]:
  "screen_player.more (play_command E p c) = screen_player.more p"
  "file_lines (play_command E p c) = file_lines p"
  "file_pos (play_command E p c) = file_pos p"
  "counter (play_command E p c) = counter p"
  "next_t (play_command E p c) = next_t p"
  "buffer (play_command E p c) = buffer p"
  by (cases c; simp add: Let_def player_print_at_def scroll_if_below_def split: option.splits prod.splits)+

lemma play_commands_frame [simp]:
  "screen_player.more (play_commands E p cs) = screen_player.more p"
  "file_lines (play_commands E p cs) = file_lines p"
  "file_pos (play_commands E p cs) = file_pos p"
  "counter (play_commands E p cs) = counter p"
  "next_t (play_commands E p cs) = next_t p"
  "buffer (play_commands E p cs) = buffer p"
  unfolding play_commands_def by (induction cs arbitrary: p) simp_all

lemma play_line_frame [simp]:
  "screen_player.more (play_line E b p l) = screen_player.more p"
  "file_lines (play_line E b p l) = file_lines p"
  "file_pos (play_line E b p l) = file_pos p"
  "counter (play_line E b p l) = counter p"
  "next_t (play_line E b p l) = next_t p"
  "buffer (play_line E b p l) = buffer p"
  by (simp_all add: play_line_def Let_def scroll_if_below_def split: prod.splits)

lemma play_lines_frame [simp]:
  "screen_player.more (play_lines E p ls) = screen_player.more p"
  "file_lines (play_lines E p ls) = file_lines p"
  "file_pos (play_lines E p ls) = file_pos p"
  "counter (play_lines E p ls) = counter p"
  "next_t (play_lines E p ls) = next_t p"
  "buffer (play_lines E p ls) = buffer p"
  by (induction E p ls rule: play_lines.induct) simp_all

lemma play_content_frame [simp]:
  "screen_player.more (play_content E p t) = screen_player.more p"
  "file_lines (play_content E p t) = file_lines p"
  "file_pos (play_content E p t) = file_pos p"
  "counter (play_content E p t) = counter p"
  "next_t (play_content E p t) = next_t p"
  "buffer (play_content E p t) = buffer p"
  by (simp_all add: play_content_def)


lemma play_content_changes:
  "play_content E p t = p\<lparr>parser := parser (play_content E p t),
     current_colours := current_colours (play_content E p t),
     show_cursor := show_cursor (play_content E p t),
     cursor_x := cursor_x (play_content E p t),
     cursor_y := cursor_y (play_content E p t),
     save_cursor_x := save_cursor_x (play_content E p t),
     save_cursor_y := save_cursor_y (play_content E p t),
     canvas := canvas (play_content E p t)\<rparr>"
  by (rule screen_player.equality) simp_all

lemma play_content_ansi [simp]:
  "rate (play_content E p t) = rate p"
  "strip (play_content E p t) = strip p"
  "encoding (play_content E p t) = encoding p"
  by (subst play_content_changes, simp)+



subsection \<open>AsciinemaPlayer\<close>

text \<open>
  A line of an asciinema file is what \<^verbatim>\<open>json.loads\<close> makes of it: \<open>NotJSON\<close> when the
  standard library raises its \<^verbatim>\<open>JSONDecodeError\<close> (a \<^verbatim>\<open>ValueError\<close>), the decoded value
  otherwise. The empty bytes read at the end of the file are not JSON either.
\<close>

datatype json_line = NotJSON | JSON jvalue

record 'p asciinema_player = "('p, json_line) screen_player" +
  max_delay :: "real option"

lemma play_content_max_delay [simp]:
  "max_delay (play_content E p t) = max_delay p"
  by (subst play_content_changes, simp)

definition json_loads :: "json_line option \<Rightarrow> error + jvalue" where
  "json_loads line =
     (case line of None \<Rightarrow> Inl ValueError | Some NotJSON \<Rightarrow> Inl ValueError | Some (JSON v) \<Rightarrow> Inr v)"

text \<open>
  A decoded JSON object is a Python dict: its keys in the order of their first
  occurrence, each with the value of its last occurrence.
\<close>

fun dict_keys :: "(string \<times> jvalue) list \<Rightarrow> string list" where
  "dict_keys [] = []"
| "dict_keys ((k, v) # kvs) = k # filter (\<lambda>k'. k' \<noteq> k) (dict_keys kvs)"

definition dict_get :: "(string \<times> jvalue) list \<Rightarrow> string \<Rightarrow> jvalue option" where
  "dict_get kvs k = map_of (rev kvs) k"

text \<open>\<^verbatim>\<open>header[key]\<close> for a string key.\<close>

fun subscript :: "jvalue \<Rightarrow> string \<Rightarrow> error + jvalue" where
  "subscript (JObj kvs) k = (case dict_get kvs k of None \<Rightarrow> Inl KeyError | Some v \<Rightarrow> Inr v)"
| "subscript v k = Inl TypeError"

text \<open>\<^verbatim>\<open>v != 2\<close>: only a number can equal 2, and \<^verbatim>\<open>2.0 == 2\<close>.\<close>

fun differs_from_2 :: "jvalue \<Rightarrow> bool" where
  "differs_from_2 (JInt i) = (i \<noteq> 2)"
| "differs_from_2 (JFloat r) = (r \<noteq> 2)"
| "differs_from_2 v = True"

text \<open>Python's truth value of a decoded JSON value.\<close>

fun truthy :: "jvalue \<Rightarrow> bool" where
  "truthy JNull = False"
| "truthy (JBool b) = b"
| "truthy (JInt i) = (i \<noteq> 0)"
| "truthy (JFloat r) = (r \<noteq> 0)"
| "truthy (JStr s) = (s \<noteq> [])"
| "truthy (JArr vs) = (vs \<noteq> [])"
| "truthy (JObj kvs) = (kvs \<noteq> [])"

text \<open>
  The three-way unpacking \<^verbatim>\<open>a, b, c = v\<close>: a sequence of the wrong length raises
  \<^verbatim>\<open>ValueError\<close>, a string unpacks into its characters and a dict into its keys, and a
  value that is not iterable raises \<^verbatim>\<open>TypeError\<close>.
\<close>

fun unpack3 :: "jvalue \<Rightarrow> error + (jvalue \<times> jvalue \<times> jvalue)" where
  "unpack3 (JArr vs) =
     (case vs of [a, b, c] \<Rightarrow> Inr (a, b, c) | _ \<Rightarrow> Inl ValueError)"
| "unpack3 (JStr s) =
     (case s of [a, b, c] \<Rightarrow> Inr (JStr [a], JStr [b], JStr [c]) | _ \<Rightarrow> Inl ValueError)"
| "unpack3 (JObj kvs) =
     (case dict_keys kvs of [a, b, c] \<Rightarrow> Inr (JStr a, JStr b, JStr c) | _ \<Rightarrow> Inl ValueError)"
| "unpack3 v = Inl TypeError"

text \<open>
  The number a value is when compared with the float \<^verbatim>\<open>self._counter\<close>; the comparison
  raises \<^verbatim>\<open>TypeError\<close> for anything that is not a number (a bool is one).
\<close>

fun as_number :: "jvalue \<Rightarrow> real option" where
  "as_number (JInt i) = Some (real_of_int i)"
| "as_number (JFloat r) = Some r"
| "as_number (JBool b) = Some (if b then 1 else 0)"
| "as_number v = None"

text \<open>
  Modelled from the spec: the canvas constructor (asciimatics.screen, reached through
  \<^verbatim>\<open>DynamicRenderer.__init__\<close>) is not part of the sources at hand; it builds a grid of
  the declared height and width, so each must be an integer.
\<close>

fun as_int :: "jvalue \<Rightarrow> int option" where
  "as_int (JInt i) = Some i"
| "as_int (JBool b) = Some (if b then 1 else 0)"
| "as_int v = None"

text \<open>\<^verbatim>\<open>height if height else header["height"]\<close>, and the same for the width.\<close>

definition arg_or_header :: "int option \<Rightarrow> jvalue \<Rightarrow> string \<Rightarrow> error + jvalue" where
  "arg_or_header arg header k =
     (case arg of
        None \<Rightarrow> subscript header k
      | Some n \<Rightarrow> if n \<noteq> 0 then Inr (JInt n) else subscript header k)"

text \<open>
  \<^verbatim>\<open>AbstractScreenPlayer.__init__\<close>: the fields are set and \<^verbatim>\<open>reset()\<close> is called, which
  also rewinds the file.
\<close>

definition AbstractScreenPlayer_init ::
  "'p collaborators \<Rightarrow> 'l list \<Rightarrow> nat \<Rightarrow> int \<Rightarrow> int \<Rightarrow> ('p, 'l) screen_player" where
  "AbstractScreenPlayer_init E f pos h w =
     reset E \<lparr>file_lines = f, file_pos = pos, parser = parser_reset E initial_colours,
       current_colours = initial_colours, show_cursor = False,
       cursor_x = 0, cursor_y = 0, save_cursor_x = 0, save_cursor_y = 0,
       counter = 0, next_t = 0, buffer = JNull, canvas = new_canvas h w\<rparr>"

text \<open>
  \<^verbatim>\<open>AsciinemaPlayer.__init__\<close>, from the lines of the opened file and the constructor's
  optional arguments.
\<close>

definition AsciinemaPlayer_init ::
  "'p collaborators \<Rightarrow> json_line list \<Rightarrow> int option \<Rightarrow> int option \<Rightarrow> real option
     \<Rightarrow> error + 'p asciinema_player" where
  "AsciinemaPlayer_init E f height_arg width_arg max_delay_arg =
     (case json_loads (case f of [] \<Rightarrow> None | l # _ \<Rightarrow> Some l) of
        Inl e \<Rightarrow> Inl e
      | Inr header \<Rightarrow>
         (case subscript header ''version'' of
            Inl e \<Rightarrow> Inl e
          | Inr version \<Rightarrow>
             if differs_from_2 version then Inl RuntimeError
             else
               (case arg_or_header height_arg header ''height'' of
                  Inl e \<Rightarrow> Inl e
                | Inr h \<Rightarrow>
                   (case arg_or_header width_arg header ''width'' of
                      Inl e \<Rightarrow> Inl e
                    | Inr w \<Rightarrow>
                       (case (as_int h, as_int w) of
                          (Some h', Some w') \<Rightarrow>
                            Inr (screen_player.extend
                                   (AbstractScreenPlayer_init E f (min 1 (length f)) h' w')
                                   (asciinema_player.fields max_delay_arg))
                        | _ \<Rightarrow> Inl TypeError)))))"


text \<open>
  \<^verbatim>\<open>if self._max_delay and self._next - self._counter > self._max_delay\<close>: a delay of
  \<^verbatim>\<open>None\<close> or zero is false.
\<close>

definition speed_up :: "'p asciinema_player \<Rightarrow> 'p asciinema_player" where
  "speed_up p =
     (case max_delay p of
        None \<Rightarrow> p
      | Some d \<Rightarrow> if d \<noteq> 0 \<and> next_t p - counter p > d then p\<lparr>counter := next_t p - d\<rparr> else p)"

text \<open>
  The \<^verbatim>\<open>while True\<close> loop of \<^verbatim>\<open>AsciinemaPlayer._render_now\<close>. A \<^verbatim>\<open>ValueError\<close> raised by
  the decoding or the unpacking is caught and ends the loop; any other exception leaves
  the method. Every pass that goes on has read a line, so the loop ends with the file.
\<close>

function AsciinemaPlayer_loop ::
  "'p collaborators \<Rightarrow> 'p asciinema_player \<Rightarrow> error + 'p asciinema_player" where
  "AsciinemaPlayer_loop E p =
     (case readline p of (line, p1) \<Rightarrow>
        (case json_loads line of
           Inl e \<Rightarrow> (if e = ValueError then Inr p1 else Inl e)
         | Inr record \<Rightarrow>
            (case unpack3 record of
               Inl e \<Rightarrow> (if e = ValueError then Inr p1 else Inl e)
             | Inr (t, channel, payload) \<Rightarrow>
                (case as_number t of
                   None \<Rightarrow> Inl TypeError
                 | Some t' \<Rightarrow>
                    (let p2 = p1\<lparr>next_t := t', buffer := payload\<rparr>
                     in if next_t p2 > counter p2 then Inr (speed_up p2)
                        else if truthy (buffer p2) then
                          (case buffer p2 of
                             JStr s \<Rightarrow> AsciinemaPlayer_loop E (play_content E p2 s)
                           | _ \<Rightarrow> Inl AttributeError)
                        else AsciinemaPlayer_loop E p2)))))"
  by pat_completeness auto
termination
  by (relation "measure (\<lambda>(E, p). length (file_lines p) - file_pos p)")
     (auto simp: readline_def json_loads_def split: if_splits)

text \<open>The flush of a buffered payload, at the start of a due tick.\<close>

definition flush_buffer ::
  "'p collaborators \<Rightarrow> 'p asciinema_player \<Rightarrow> error + 'p asciinema_player" where
  "flush_buffer E p =
     (if truthy (buffer p) then
        (case buffer p of
           JStr s \<Rightarrow> Inr ((play_content E p s)\<lparr>buffer := JNull\<rparr>)
         | _ \<Rightarrow> Inl AttributeError)
      else Inr p)"

text \<open>\<^verbatim>\<open>AsciinemaPlayer._render_now\<close>: one tick.\<close>

definition AsciinemaPlayer_render_now ::
  "'p collaborators \<Rightarrow> 'p asciinema_player \<Rightarrow> error + 'p asciinema_player" where
  "AsciinemaPlayer_render_now E p =
     (let p1 = p\<lparr>counter := counter p + 0.05\<rparr>
      in if counter p1 \<ge> next_t p1 then
           (case flush_buffer E p1 of
              Inl e \<Rightarrow> Inl e
            | Inr p2 \<Rightarrow> AsciinemaPlayer_loop E p2)
         else Inr p1)"



subsection \<open>Concrete players for the examples\<close>

text \<open>
  The tokenizer is not part of the sources at hand. The examples use a stand-in that does
  what \<^verbatim>\<open>AnsiTerminalParser\<close> does on text without escape sequences: \<^verbatim>\<open>parse()\<close> first
  yields \<open>CHANGE_COLOURS\<close> with the parser's current attributes, then one command for
  each character of the line: \<open>MOVE_RELATIVE (-1, 0)\<close> for a backspace, \<open>NEXT_TAB\<close> for
  a tab, \<open>MOVE_ABSOLUTE (0, None)\<close> for a carriage return and \<open>DISPLAY_TEXT\<close> of the
  single character for any other. The parser's state is its attributes. The canvas of
  the examples reports no cell, and \<open>blank_player\<close> is a freshly constructed player of a
  given height and width on an empty file.
\<close>

definition BS :: char where
  "BS = CHR 0x08"

definition TAB :: char where
  "TAB = CHR 0x09"

definition char_command :: "char \<Rightarrow> command" where
  "char_command c =
     (if c = BS then MOVE_RELATIVE (- 1) 0
      else if c = TAB then NEXT_TAB
      else if c = CR then MOVE_ABSOLUTE (Some 0) None
      else DISPLAY_TEXT [c])"

definition plain_text_collaborators :: "colours collaborators" where
  "plain_text_collaborators =
     \<lparr>parser_reset = (\<lambda>c. c),
      parser_feed = (\<lambda>ps line. (CHANGE_COLOURS ps # map char_command line, ps)),
      get_from = (\<lambda>cv x y. None)\<rparr>"

definition blank_player :: "int \<Rightarrow> int \<Rightarrow> (colours, unit) screen_player" where
  "blank_player h w = AbstractScreenPlayer_init plain_text_collaborators [] 0 h w"

text \<open>
  The asciinema files of the examples: a header of four keys for a canvas five columns
  wide and three rows high, and event records \<^verbatim>\<open>[t, "o", payload]\<close>.
  \<open>asciinema_example\<close> is the player that \<^verbatim>\<open>AsciinemaPlayer.__init__\<close> constructs from
  such a file when no height and no width is given.
\<close>

definition header_v :: "int \<Rightarrow> json_line" where
  "header_v v = JSON (JObj [(''version'', JInt v), (''width'', JInt 5), (''height'', JInt 3),
     (''timestamp'', JInt 0)])"

definition event :: "real \<Rightarrow> string \<Rightarrow> json_line" where
  "event t payload = JSON (JArr [JFloat t, JStr ''o'', JStr payload])"

definition asciinema_example :: "json_line list \<Rightarrow> real option \<Rightarrow> colours asciinema_player" where
  "asciinema_example f d =
     screen_player.extend (AbstractScreenPlayer_init plain_text_collaborators f 0 3 5)
       (asciinema_player.fields d)"


text \<open>The components of the current colour triple, as \<^verbatim>\<open>_print_at\<close> passes them.\<close>

definition colour_of :: "('p, 'l, 'm) screen_player_scheme \<Rightarrow> int" where
  "colour_of p = fst (current_colours p)"

definition attr_of :: "('p, 'l, 'm) screen_player_scheme \<Rightarrow> int" where
  "attr_of p = fst (snd (current_colours p))"

definition bg_of :: "('p, 'l, 'm) screen_player_scheme \<Rightarrow> int" where
  "bg_of p = snd (snd (current_colours p))"

subsection \<open>Staying inside the row\<close>







text \<open>
  Where the wrap of \<^verbatim>\<open>DISPLAY_TEXT\<close> splits a text of \<open>n\<close> characters, counted in
  characters from its start: \<open>width - cursor_x\<close> with the cursor not beyond the width, and
  \<open>n - (cursor_x - width)\<close>, or 0 when that is negative, with the cursor beyond it.
\<close>

definition split_index :: "int \<Rightarrow> int \<Rightarrow> nat \<Rightarrow> nat" where
  "split_index w x n = (if x \<le> w then nat (w - x) else n - nat (x - w))"


section \<open>Properties\<close>

subsection \<open>Slices\<close>

lemmas blank_player_simps =
  blank_player_def AbstractScreenPlayer_init_def reset_def new_canvas_def canvas_reset_def
  initial_colours_def plain_text_collaborators_def

lemmas asciinema_simps =
  AsciinemaPlayer_init_def json_loads_def dict_get_def arg_or_header_def header_v_def event_def
  screen_player.defs asciinema_player.defs

lemmas run_simps =
  asciinema_example_def AbstractScreenPlayer_init_def reset_def new_canvas_def canvas_reset_def
  initial_colours_def plain_text_collaborators_def header_v_def event_def
  screen_player.defs asciinema_player.defs
  AsciinemaPlayer_render_now_def flush_buffer_def readline_def json_loads_def speed_up_def Let_def


lemmas tokenizer_simps =
  char_command_def BS_def TAB_def CR_def LF_def

lemmas display_simps =
  player_print_at_def print_at_def scroll_if_below_def scroll_def slice_to_def slice_from_def
  py_index_def Let_def

lemma slice_concat: "slice_to s k @ slice_from s k = s"
  by (simp add: slice_to_def slice_from_def)

lemma slice_in_row:
  assumes "0 \<le> k" "k \<le> int (length s)"
  shows "slice_to s k = take (nat k) s" "slice_from s k = drop (nat k) s"
  using assms by (simp_all add: slice_to_def slice_from_def py_index_def min_def)

lemma wrap_calls:
  assumes "cursor_x p + int (length params) \<ge> width (canvas p)"
  shows "calls (canvas (play_command E p (DISPLAY_TEXT params))) =
           calls (canvas p) @
           [PrintAt (slice_to params (width (canvas p) - cursor_x p)) (cursor_x p) (cursor_y p)
              (colour_of p) (attr_of p) (bg_of p),
            PrintAt (slice_from params (width (canvas p) - cursor_x p)) 0 (cursor_y p + 1)
              (colour_of p) (attr_of p) (bg_of p)] @
           (if cursor_y p + 1 - start_line (canvas p) \<ge> height (canvas p) then [Scroll 1] else [])"
    and "cursor_y (play_command E p (DISPLAY_TEXT params)) = cursor_y p + 1"
    and "cursor_x (play_command E p (DISPLAY_TEXT params)) =
           int (length (slice_from params (width (canvas p) - cursor_x p)))"
  using assms
  by (simp_all add: player_print_at_def print_at_def scroll_if_below_def scroll_def Let_def
        colour_of_def attr_of_def bg_of_def split: prod.splits)

lemma slice_beyond:
  assumes "k < 0"
  shows "slice_to s k = take (length s - nat (- k)) s" "slice_from s k = drop (length s - nat (- k)) s"
proof -
  have "nat (max 0 (int (length s) + k)) = length s - nat (- k)"
    using assms by arith
  then show "slice_to s k = take (length s - nat (- k)) s" "slice_from s k = drop (length s - nat (- k)) s"
    using assms by (simp_all add: slice_to_def slice_from_def py_index_def)
qed

lemma overflow_slices:
  assumes "cursor_x p + int (length params) > width (canvas p)"
  shows "slice_to params (width (canvas p) - cursor_x p) =
           take (split_index (width (canvas p)) (cursor_x p) (length params)) params"
    and "slice_from params (width (canvas p) - cursor_x p) =
           drop (split_index (width (canvas p)) (cursor_x p) (length params)) params"
proof -
  let ?k = "width (canvas p) - cursor_x p"
  show "slice_to params ?k = take (split_index (width (canvas p)) (cursor_x p) (length params)) params"
  proof (cases "cursor_x p \<le> width (canvas p)")
    case True
    then have "0 \<le> ?k" "?k \<le> int (length params)" using assms by simp_all
    from slice_in_row(1) [OF this] True show ?thesis by (simp add: split_index_def)
  next
    case False
    then have "?k < 0" by simp
    from slice_beyond(1) [OF this] False show ?thesis by (simp add: split_index_def)
  qed
  show "slice_from params ?k = drop (split_index (width (canvas p)) (cursor_x p) (length params)) params"
  proof (cases "cursor_x p \<le> width (canvas p)")
    case True
    then have "0 \<le> ?k" "?k \<le> int (length params)" using assms by simp_all
    from slice_in_row(2) [OF this] True show ?thesis by (simp add: split_index_def)
  next
    case False
    then have "?k < 0" by simp
    from slice_beyond(2) [OF this] False show ?thesis by (simp add: split_index_def)
  qed
qed

subsection \<open>DISPLAY_TEXT\<close>

text \<open>
  C2, as amended. A \<open>DISPLAY_TEXT\<close> whose text ends strictly before the last column
  (\<open>cursor_x + len(text) < width\<close>) is written once, at the cursor, in the current
  colours; afterwards \<open>cursor_x\<close> is the previous \<open>cursor_x\<close> plus the length of the text,
  \<open>cursor_y\<close> and the start line are unchanged: no wrap and no scroll.
\<close>

theorem display_text_fits:
  assumes "cursor_x p + int (length params) < width (canvas p)"
  shows "cursor_x (play_command E p (DISPLAY_TEXT params)) = cursor_x p + int (length params)
       \<and> cursor_y (play_command E p (DISPLAY_TEXT params)) = cursor_y p
       \<and> start_line (canvas (play_command E p (DISPLAY_TEXT params))) = start_line (canvas p)
       \<and> calls (canvas (play_command E p (DISPLAY_TEXT params))) =
           calls (canvas p) @
           [PrintAt params (cursor_x p) (cursor_y p) (colour_of p) (attr_of p) (bg_of p)]"
  using assms
  by (simp add: player_print_at_def print_at_def colour_of_def attr_of_def bg_of_def
        split: prod.splits)

text \<open>Four characters on a fresh canvas five columns wide.\<close>

theorem display_text_fits_witness:
  "cursor_x (blank_player 3 5) + int (length ''abcd'') < width (canvas (blank_player 3 5))
   \<and> cursor_x (play_command plain_text_collaborators (blank_player 3 5) (DISPLAY_TEXT ''abcd'')) = 4
   \<and> cursor_y (play_command plain_text_collaborators (blank_player 3 5) (DISPLAY_TEXT ''abcd'')) = 0
   \<and> calls (canvas (play_command plain_text_collaborators (blank_player 3 5) (DISPLAY_TEXT ''abcd''))) =
       [PrintAt ''abcd'' 0 0 7 2 0]"
  using display_text_fits [of "blank_player 3 5" "''abcd''" plain_text_collaborators]
  by (simp add: blank_player_simps colour_of_def attr_of_def bg_of_def)

text \<open>
  C2 as stated fails where the text ends exactly at the last column: the guard of the
  source is \<^verbatim>\<open>>=\<close>, so five characters at column 0 of a canvas five columns wide do not
  exceed the width and still wrap, leaving the cursor at column 0 of the next row.
\<close>

theorem display_text_exact_fit_wraps:
  "cursor_x (blank_player 3 5) + int (length ''abcde'') \<le> width (canvas (blank_player 3 5))
   \<and> cursor_x (play_command plain_text_collaborators (blank_player 3 5) (DISPLAY_TEXT ''abcde''))
       \<noteq> cursor_x (blank_player 3 5) + int (length ''abcde'')
   \<and> cursor_y (play_command plain_text_collaborators (blank_player 3 5) (DISPLAY_TEXT ''abcde''))
       \<noteq> cursor_y (blank_player 3 5)"
  by (simp add: blank_player_simps display_simps)

text \<open>
  C3, as amended. A \<open>DISPLAY_TEXT\<close> that overflows the row, \<open>cursor_x + len(text) > width\<close>,
  is written in two parts that together are the text: the first \<open>split_index\<close> characters
  at the cursor, the others at column 0 of the next row; the cursor row goes up by exactly
  1 and the cursor column becomes the length of the second part. With the cursor not
  beyond the width the split is exactly at \<open>width - cursor_x\<close>. With the cursor beyond
  the width, \<open>width - cursor_x\<close> is negative and Python counts the slice bound from the
  end of the text: the split is at \<open>len(text) - (cursor_x - width)\<close>, or at 0 when that
  is negative.
\<close>

theorem display_text_overflow:
  assumes "cursor_x p + int (length params) > width (canvas p)"
  shows "calls (canvas (play_command E p (DISPLAY_TEXT params))) =
           calls (canvas p) @
           [PrintAt (take (split_index (width (canvas p)) (cursor_x p) (length params)) params)
              (cursor_x p) (cursor_y p) (colour_of p) (attr_of p) (bg_of p),
            PrintAt (drop (split_index (width (canvas p)) (cursor_x p) (length params)) params)
              0 (cursor_y p + 1) (colour_of p) (attr_of p) (bg_of p)] @
           (if cursor_y p + 1 - start_line (canvas p) \<ge> height (canvas p) then [Scroll 1] else [])
       \<and> take (split_index (width (canvas p)) (cursor_x p) (length params)) params @
           drop (split_index (width (canvas p)) (cursor_x p) (length params)) params = params
       \<and> cursor_y (play_command E p (DISPLAY_TEXT params)) = cursor_y p + 1
       \<and> cursor_x (play_command E p (DISPLAY_TEXT params)) =
           int (length params - split_index (width (canvas p)) (cursor_x p) (length params))
       \<and> (cursor_x p \<le> width (canvas p) \<longrightarrow>
            int (split_index (width (canvas p)) (cursor_x p) (length params)) =
              width (canvas p) - cursor_x p)"
proof -
  have ge: "cursor_x p + int (length params) \<ge> width (canvas p)"
    using assms by simp
  note parts = overflow_slices [OF assms]
  have "cursor_x p \<le> width (canvas p) \<Longrightarrow>
      int (split_index (width (canvas p)) (cursor_x p) (length params)) = width (canvas p) - cursor_x p"
    by (simp add: split_index_def)
  then show ?thesis
    using wrap_calls [OF ge, of E] by (simp add: parts)
qed

text \<open>Seven characters at column 0 of a fresh canvas five columns wide.\<close>

theorem display_text_overflow_witness:
  "cursor_x (blank_player 3 5) + int (length ''abcdefg'') > width (canvas (blank_player 3 5))
   \<and> cursor_x (blank_player 3 5) \<le> width (canvas (blank_player 3 5))
   \<and> split_index (width (canvas (blank_player 3 5))) (cursor_x (blank_player 3 5)) (length ''abcdefg'') = 5
   \<and> calls (canvas (play_command plain_text_collaborators (blank_player 3 5) (DISPLAY_TEXT ''abcdefg''))) =
       [PrintAt ''abcde'' 0 0 7 2 0, PrintAt ''fg'' 0 1 7 2 0]
   \<and> cursor_y (play_command plain_text_collaborators (blank_player 3 5) (DISPLAY_TEXT ''abcdefg'')) = 1"
  using display_text_overflow [of "blank_player 3 5" "''abcdefg''" plain_text_collaborators]
  by (simp add: blank_player_simps split_index_def colour_of_def attr_of_def bg_of_def)

text \<open>
  C3 as stated fails with the cursor beyond the width, where a tab takes it: on a fresh
  canvas five columns wide the tab stop is column 8, \<open>width - cursor_x\<close> is -3, and six
  characters are split after the third one.
\<close>

theorem overflow_beyond_width:
  "cursor_x (play_command plain_text_collaborators (blank_player 3 5) NEXT_TAB) = 8
   \<and> cursor_x (play_command plain_text_collaborators (blank_player 3 5) NEXT_TAB) + int (length ''abcdef'')
       > width (canvas (play_command plain_text_collaborators (blank_player 3 5) NEXT_TAB))
   \<and> calls (canvas (play_command plain_text_collaborators
        (play_command plain_text_collaborators (blank_player 3 5) NEXT_TAB) (DISPLAY_TEXT ''abcdef''))) =
       [PrintAt ''abc'' 8 0 7 2 0, PrintAt ''def'' 0 1 7 2 0]
   \<and> int (length ''abc'') \<noteq>
       width (canvas (play_command plain_text_collaborators (blank_player 3 5) NEXT_TAB))
       - cursor_x (play_command plain_text_collaborators (blank_player 3 5) NEXT_TAB)"
  by (simp add: blank_player_simps display_simps)

text \<open>
  C4, as amended. When a \<open>DISPLAY_TEXT\<close> wraps and the remainder after the split is
  empty, the whole text is written at the cursor and the write on the next row is the
  empty string; the cursor still moves to column 0 of that next row, and the canvas is
  scrolled when that row is below the window.
\<close>

theorem display_text_empty_remainder:
  assumes "cursor_x p + int (length params) \<ge> width (canvas p)"
      and "slice_from params (width (canvas p) - cursor_x p) = []"
  shows "calls (canvas (play_command E p (DISPLAY_TEXT params))) =
           calls (canvas p) @
           [PrintAt params (cursor_x p) (cursor_y p) (colour_of p) (attr_of p) (bg_of p),
            PrintAt [] 0 (cursor_y p + 1) (colour_of p) (attr_of p) (bg_of p)] @
           (if cursor_y p + 1 - start_line (canvas p) \<ge> height (canvas p) then [Scroll 1] else [])
       \<and> cursor_x (play_command E p (DISPLAY_TEXT params)) = 0
       \<and> cursor_y (play_command E p (DISPLAY_TEXT params)) = cursor_y p + 1"
proof -
  have "slice_to params (width (canvas p) - cursor_x p) = params"
    using slice_concat [of params "width (canvas p) - cursor_x p"] assms(2) by simp
  then show ?thesis
    using wrap_calls [OF assms(1), of E] assms(2) by simp
qed

text \<open>Five characters filling a row of five columns.\<close>

theorem display_text_empty_remainder_witness:
  "cursor_x (blank_player 3 5) + int (length ''abcde'') \<ge> width (canvas (blank_player 3 5))
   \<and> slice_from ''abcde'' (width (canvas (blank_player 3 5)) - cursor_x (blank_player 3 5)) = []
   \<and> calls (canvas (play_command plain_text_collaborators (blank_player 3 5) (DISPLAY_TEXT ''abcde''))) =
       [PrintAt ''abcde'' 0 0 7 2 0, PrintAt [] 0 1 7 2 0]
   \<and> cursor_x (play_command plain_text_collaborators (blank_player 3 5) (DISPLAY_TEXT ''abcde'')) = 0"
  using display_text_empty_remainder [of "blank_player 3 5" "''abcde''" plain_text_collaborators]
  by (simp add: blank_player_simps slice_from_def py_index_def colour_of_def attr_of_def bg_of_def)

text \<open>
  C4 as stated fails: after five characters filling a row of five columns the remainder
  is empty and the cursor is on the next row; played through \<^verbatim>\<open>_play_content\<close> with a
  line break and more text, that row stays blank and the text lands two rows down.
\<close>

theorem full_row_leaves_blank_row:
  "slice_from ''abcde'' (width (canvas (blank_player 3 5)) - cursor_x (blank_player 3 5)) = []
   \<and> cursor_y (play_command plain_text_collaborators (blank_player 3 5) (DISPLAY_TEXT ''abcde'')) =
       cursor_y (blank_player 3 5) + 1
   \<and> calls (canvas (play_content plain_text_collaborators (blank_player 3 5) (''abcde'' @ [LF] @ ''fg''))) =
       [PrintAt ''a'' 0 0 7 2 0, PrintAt ''b'' 1 0 7 2 0, PrintAt ''c'' 2 0 7 2 0,
        PrintAt ''d'' 3 0 7 2 0, PrintAt ''e'' 4 0 7 2 0, PrintAt [] 0 1 7 2 0,
        PrintAt ''f'' 0 2 7 2 0, PrintAt ''g'' 1 2 7 2 0]"
  by (simp add: blank_player_simps display_simps tokenizer_simps play_content_def play_line_def
        play_commands_def)

subsection \<open>SAVE_CURSOR and RESTORE_CURSOR\<close>

lemma delete_chars_save [simp]:
  "save_cursor_x (foldl (delete_chars_at E n) p xs) = save_cursor_x p"
  "save_cursor_y (foldl (delete_chars_at E n) p xs) = save_cursor_y p"
  by (induction xs arbitrary: p)
     (simp_all add: delete_chars_at_def Let_def split: option.splits prod.splits)

lemma save_slot_kept:
  "c \<noteq> SAVE_CURSOR \<Longrightarrow> save_cursor_x (play_command E p c) = save_cursor_x p"
  "c \<noteq> SAVE_CURSOR \<Longrightarrow> save_cursor_y (play_command E p c) = save_cursor_y p"
  by (cases c; simp add: Let_def player_print_at_def scroll_if_below_def
        split: option.splits prod.splits)+

lemma play_commands_append:
  "play_commands E p (xs @ ys) = play_commands E (play_commands E p xs) ys"
  by (simp add: play_commands_def)

lemma save_slot_kept_run:
  "SAVE_CURSOR \<notin> set cs \<Longrightarrow> save_cursor_x (play_commands E p cs) = save_cursor_x p"
  "SAVE_CURSOR \<notin> set cs \<Longrightarrow> save_cursor_y (play_commands E p cs) = save_cursor_y p"
  unfolding play_commands_def
  by (induction cs arbitrary: p) (auto simp: save_slot_kept)

text \<open>
  C9. \<open>SAVE_CURSOR\<close> followed immediately by \<open>RESTORE_CURSOR\<close> leaves \<open>cursor_x\<close> and
  \<open>cursor_y\<close> as they were. The memory is a single slot: after a first save, any commands,
  a second save and further commands without a save, \<open>RESTORE_CURSOR\<close> returns to the
  position of the second save, whatever the first one stored.
\<close>

theorem save_restore_cursor:
  "cursor_x (play_commands E p [SAVE_CURSOR, RESTORE_CURSOR]) = cursor_x p
   \<and> cursor_y (play_commands E p [SAVE_CURSOR, RESTORE_CURSOR]) = cursor_y p
   \<and> (SAVE_CURSOR \<notin> set cs' \<longrightarrow>
        cursor_x (play_commands E p ([SAVE_CURSOR] @ cs @ [SAVE_CURSOR] @ cs' @ [RESTORE_CURSOR])) =
          cursor_x (play_commands E p ([SAVE_CURSOR] @ cs))
      \<and> cursor_y (play_commands E p ([SAVE_CURSOR] @ cs @ [SAVE_CURSOR] @ cs' @ [RESTORE_CURSOR])) =
          cursor_y (play_commands E p ([SAVE_CURSOR] @ cs)))"
proof -
  have pair: "cursor_x (play_commands E q [SAVE_CURSOR, RESTORE_CURSOR]) = cursor_x q
      \<and> cursor_y (play_commands E q [SAVE_CURSOR, RESTORE_CURSOR]) = cursor_y q" for q :: "('a, 'b, 'c) screen_player_scheme"
    by (simp add: play_commands_def)
  have later: "cursor_x (play_commands E q ([SAVE_CURSOR] @ cs' @ [RESTORE_CURSOR])) = cursor_x q
      \<and> cursor_y (play_commands E q ([SAVE_CURSOR] @ cs' @ [RESTORE_CURSOR])) = cursor_y q"
    if "SAVE_CURSOR \<notin> set cs'" for q :: "('a, 'b, 'c) screen_player_scheme"
  proof -
    let ?s = "play_commands E q [SAVE_CURSOR]"
    have "save_cursor_x (play_commands E ?s cs') = cursor_x q"
         "save_cursor_y (play_commands E ?s cs') = cursor_y q"
      using save_slot_kept_run [OF that, of E ?s] by (simp_all add: play_commands_def)
    then show ?thesis
      by (simp add: play_commands_append) (simp add: play_commands_def)
  qed
  have split: "play_commands E p ([SAVE_CURSOR] @ cs @ [SAVE_CURSOR] @ cs' @ [RESTORE_CURSOR]) =
      play_commands E (play_commands E p ([SAVE_CURSOR] @ cs)) ([SAVE_CURSOR] @ cs' @ [RESTORE_CURSOR])"
    by (simp add: play_commands_def)
  show ?thesis
    using pair [of p] later [of "play_commands E p ([SAVE_CURSOR] @ cs)"] split by simp
qed

text \<open>
  A save at column 0, two characters, a second save at column 2, three more characters:
  the restore returns to column 2.
\<close>

theorem save_restore_cursor_witness:
  "SAVE_CURSOR \<notin> set [DISPLAY_TEXT ''cde'']
   \<and> cursor_x (play_commands plain_text_collaborators (blank_player 3 10)
        ([SAVE_CURSOR] @ [DISPLAY_TEXT ''ab''] @ [SAVE_CURSOR] @ [DISPLAY_TEXT ''cde''] @ [RESTORE_CURSOR])) = 2
   \<and> cursor_x (play_commands plain_text_collaborators (blank_player 3 10)
        [DISPLAY_TEXT ''ab'', SAVE_CURSOR, DISPLAY_TEXT ''cde'']) = 5"
  using save_restore_cursor [of plain_text_collaborators "blank_player 3 10" "[DISPLAY_TEXT ''cde'']" "[DISPLAY_TEXT ''ab'']"]
  by (simp add: blank_player_simps display_simps play_commands_def)

subsection \<open>Columns written\<close>













subsection \<open>Construction of the AsciinemaPlayer\<close>

lemma asciinema_example_init:
  "AsciinemaPlayer_init plain_text_collaborators (header_v 2 # events) None None d =
     Inr (asciinema_example (header_v 2 # events) d)"
  by (simp add: asciinema_simps asciinema_example_def AbstractScreenPlayer_init_def reset_def)

text \<open>
  C5. When the first line of the file decodes to an object whose \<open>version\<close> entry
  differs from 2, \<^verbatim>\<open>AsciinemaPlayer.__init__\<close> raises \<^verbatim>\<open>RuntimeError\<close>: no player exists, so
  no frame is produced. And whenever the construction returns a player, the first line
  is JSON with a \<open>version\<close> entry that is the number 2.
\<close>

theorem unsupported_version_rejected:
  "(subscript header ''version'' = Inr v \<and> differs_from_2 v
      \<longrightarrow> AsciinemaPlayer_init E (JSON header # events) height_arg width_arg max_delay_arg
            = Inl RuntimeError)
   \<and> (AsciinemaPlayer_init E f height_arg width_arg max_delay_arg = Inr p
      \<longrightarrow> (\<exists>header events v. f = JSON header # events
             \<and> subscript header ''version'' = Inr v \<and> (v = JInt 2 \<or> v = JFloat 2)))"
proof (intro conjI impI)
  assume "subscript header ''version'' = Inr v \<and> differs_from_2 v"
  then show "AsciinemaPlayer_init E (JSON header # events) height_arg width_arg max_delay_arg
      = Inl RuntimeError"
    by (simp add: AsciinemaPlayer_init_def json_loads_def)
next
  assume ok: "AsciinemaPlayer_init E f height_arg width_arg max_delay_arg = Inr p"
  then obtain header events where f: "f = JSON header # events"
    by (cases f; simp add: AsciinemaPlayer_init_def json_loads_def split: json_line.splits)
  from ok f obtain v where v: "subscript header ''version'' = Inr v" "\<not> differs_from_2 v"
    by (cases "subscript header ''version''")
       (simp_all add: AsciinemaPlayer_init_def json_loads_def split: if_splits)
  from v(2) have "v = JInt 2 \<or> v = JFloat 2"
    by (cases v) simp_all
  with f v(1) show "\<exists>header events v. f = JSON header # events
             \<and> subscript header ''version'' = Inr v \<and> (v = JInt 2 \<or> v = JFloat 2)"
    by blast
qed

text \<open>A header of version 1 is rejected, and the header of the examples is accepted.\<close>

theorem unsupported_version_rejected_witness:
  "subscript (JObj [(''version'', JInt 1), (''width'', JInt 5), (''height'', JInt 3)]) ''version''
     = Inr (JInt 1)
   \<and> differs_from_2 (JInt 1)
   \<and> AsciinemaPlayer_init plain_text_collaborators
       [JSON (JObj [(''version'', JInt 1), (''width'', JInt 5), (''height'', JInt 3)]), event 0 ''a'']
       None None None = Inl RuntimeError
   \<and> (\<exists>p. AsciinemaPlayer_init plain_text_collaborators [header_v 2, event 0 ''a''] None None None = Inr p)"
  using unsupported_version_rejected
    [of "JObj [(''version'', JInt 1), (''width'', JInt 5), (''height'', JInt 3)]" "JInt 1"
        plain_text_collaborators "[event 0 ''a'']" None None None "[header_v 2, event 0 ''a'']"]
  by (simp add: asciinema_simps)

subsection \<open>Ticks of the AsciinemaPlayer\<close>

text \<open>
  \<^verbatim>\<open>speed_up\<close> assigns to the counter only. The two lemmas after it unfold one pass of
  the loop: on an event record whose time is a number, and on a record that is not JSON
  or at the end of the file.
\<close>

lemma speed_up_frame [simp]:
  "canvas (speed_up p) = canvas p"
  "next_t (speed_up p) = next_t p"
  "buffer (speed_up p) = buffer p"
  "file_pos (speed_up p) = file_pos p"
  "parser (speed_up p) = parser p"
  "cursor_x (speed_up p) = cursor_x p"
  "cursor_y (speed_up p) = cursor_y p"
  by (simp_all add: speed_up_def split: option.splits)

lemma loop_event:
  assumes "file_pos p < length (file_lines p)"
    and "file_lines p ! file_pos p = JSON (JArr [t, channel, payload])"
    and "as_number t = Some t'"
  shows "AsciinemaPlayer_loop E p =
      (if t' > counter p
       then Inr (speed_up (p\<lparr>file_pos := file_pos p + 1, next_t := t', buffer := payload\<rparr>))
       else if truthy payload then
         (case payload of
            JStr s \<Rightarrow> AsciinemaPlayer_loop E
              (play_content E (p\<lparr>file_pos := file_pos p + 1, next_t := t', buffer := payload\<rparr>) s)
          | _ \<Rightarrow> Inl AttributeError)
       else AsciinemaPlayer_loop E (p\<lparr>file_pos := file_pos p + 1, next_t := t', buffer := payload\<rparr>))"
  using assms
  by (subst AsciinemaPlayer_loop.simps) (simp add: readline_def json_loads_def Let_def cong: jvalue.case_cong)


text \<open>
  C10. An event whose payload is the empty string is not played. In the loop, the pass
  that reads it stores its time and its payload and advances the file, and then either
  ends the loop, when the time is ahead of the counter, or goes on to the next record:
  \<^verbatim>\<open>_play_content\<close> is not called, so the canvas is the one before the read, while
  \<open>next_t\<close> is the time of the event. At the start of a due tick, a buffer holding the
  empty string is not flushed: the tick goes straight to the loop.
\<close>

theorem empty_payload_not_played:
  "(file_pos p < length (file_lines p)
      \<and> file_lines p ! file_pos p = JSON (JArr [t, channel, JStr []])
      \<and> as_number t = Some t'
     \<longrightarrow> AsciinemaPlayer_loop E p =
          (if t' > counter p
           then Inr (speed_up (p\<lparr>file_pos := file_pos p + 1, next_t := t', buffer := JStr []\<rparr>))
           else AsciinemaPlayer_loop E
                  (p\<lparr>file_pos := file_pos p + 1, next_t := t', buffer := JStr []\<rparr>))
        \<and> canvas (speed_up (p\<lparr>file_pos := file_pos p + 1, next_t := t', buffer := JStr []\<rparr>))
            = canvas p
        \<and> next_t (speed_up (p\<lparr>file_pos := file_pos p + 1, next_t := t', buffer := JStr []\<rparr>))
            = t')
   \<and> (buffer p = JStr []
     \<longrightarrow> flush_buffer E p = Inr p
        \<and> AsciinemaPlayer_render_now E p =
            (if counter p + 0.05 \<ge> next_t p
             then AsciinemaPlayer_loop E (p\<lparr>counter := counter p + 0.05\<rparr>)
             else Inr (p\<lparr>counter := counter p + 0.05\<rparr>)))"
proof (intro conjI impI)
  assume a: "file_pos p < length (file_lines p)
      \<and> file_lines p ! file_pos p = JSON (JArr [t, channel, JStr []])
      \<and> as_number t = Some t'"
  then show "AsciinemaPlayer_loop E p =
          (if t' > counter p
           then Inr (speed_up (p\<lparr>file_pos := file_pos p + 1, next_t := t', buffer := JStr []\<rparr>))
           else AsciinemaPlayer_loop E
                  (p\<lparr>file_pos := file_pos p + 1, next_t := t', buffer := JStr []\<rparr>))"
    using loop_event [of p t channel "JStr []" t' E] by simp
qed (simp_all add: flush_buffer_def AsciinemaPlayer_render_now_def Let_def)

text \<open>
  After the header, an event at time 0 with an empty payload and an event at time 1:
  the loop passes the first without a canvas call and stops at the second. A buffer
  holding the empty string is left as it is by the flush.
\<close>

theorem empty_payload_not_played_witness:
  "file_pos ((asciinema_example [header_v 2, event 0 [], event 1 ''a''] None)\<lparr>file_pos := 1, counter := 1 / 10\<rparr>)
     < length (file_lines ((asciinema_example [header_v 2, event 0 [], event 1 ''a''] None)\<lparr>file_pos := 1, counter := 1 / 10\<rparr>))
   \<and> AsciinemaPlayer_loop plain_text_collaborators
        ((asciinema_example [header_v 2, event 0 [], event 1 ''a''] None)\<lparr>file_pos := 1, counter := 1 / 10\<rparr>)
      = Inr ((asciinema_example [header_v 2, event 0 [], event 1 ''a''] None)
               \<lparr>file_pos := 3, counter := 1 / 10, next_t := 1, buffer := JStr ''a''\<rparr>)
   \<and> flush_buffer plain_text_collaborators
        ((asciinema_example [header_v 2] None)\<lparr>buffer := JStr []\<rparr>)
      = Inr ((asciinema_example [header_v 2] None)\<lparr>buffer := JStr []\<rparr>)"
  using empty_payload_not_played
    [of "(asciinema_example [header_v 2, event 0 [], event 1 ''a''] None)\<lparr>file_pos := 1, counter := 1 / 10\<rparr>"
        "JFloat 0" "JStr ''o''" 0 plain_text_collaborators]
    empty_payload_not_played
    [of "(asciinema_example [header_v 2] None)\<lparr>buffer := JStr []\<rparr>" _ _ _ plain_text_collaborators]
  by (simp add: run_simps AsciinemaPlayer_loop.simps)









subsection \<open>Ticks of the AnsiArtPlayer\<close>










end
